theory Spec2Isabelle
  imports Main "HOL-Library.Multiset"
begin

section \<open>Entity model (types/todo)\<close>

text \<open>
  The entity types of the front end. Identifiers are JavaScript numbers that the
  backend assigns as integers; they are modelled as \<open>int\<close>. Field names carry
  a prefix because record fields are global constants.
\<close>

record Label =
  label_id :: int
  label_name :: string

record Todo =
  todo_id :: int
  todo_text :: string
  todo_completed :: bool
  todo_labels :: "Label list"

text \<open>
  The type file declares \<open>labels: Label[]\<close> for \<open>NewTodoPayload\<close>, while the
  form builds the field with \<open>editLabels.map((label) => label.id)\<close>. TypeScript
  types are erased when the program runs, so the payload is parametric in what
  its \<open>labels\<close> field holds and each producer fixes the element type by the
  value it builds.
\<close>

record 'l NewTodoPayload =
  new_text :: string
  new_labels :: "'l list"

text \<open>
  \<open>UpdateTodoPayload = Partial<Omit<Todo, 'id'>> & { id: number }\<close>: the
  identifier is mandatory, every other field may be left out (\<open>None\<close>).
\<close>

record UpdateTodoPayload =
  upd_id :: int
  upd_text :: "string option"
  upd_completed :: "bool option"
  upd_labels :: "Label list option"

record NewLabelPayload =
  new_name :: string

section \<open>JavaScript truthiness\<close>

text \<open>
  \<open>!editText\<close> and \<open>!payload.text\<close> test a string: only the empty string is
  falsy. \<open>filterLabelId ? ... : ...\<close> tests a \<open>number | null\<close>: \<open>null\<close> is
  falsy and so is the number \<open>0\<close>.
\<close>

definition truthy_string :: "string \<Rightarrow> bool" where
  "truthy_string s = (s \<noteq> [])"

fun truthy_number :: "int option \<Rightarrow> bool" where
  "truthy_number None = False"
| "truthy_number (Some n) = (n \<noteq> 0)"

section \<open>TodoForm (components/TodoForm.tsx)\<close>

text \<open>The three \<open>useState\<close> cells of the component.\<close>

record TodoFormState =
  editText :: string
  editLabels :: "Label list"
  openLabelModal :: bool

text \<open>
  \<open>addTodoHandler\<close>: the call of the \<open>onSubmit\<close> prop is returned as the
  emitted payload (\<open>None\<close> when the handler returns before the call), next to
  the component state after the handler.
\<close>

definition addTodoHandler :: "TodoFormState \<Rightarrow> int NewTodoPayload option \<times> TodoFormState" where
  "addTodoHandler s =
     (if \<not> truthy_string (editText s) then (None, s)
      else (Some \<lparr>new_text = editText s, new_labels = map label_id (editLabels s)\<rparr>,
            s\<lparr>editText := []\<rparr>))"

text \<open>
  Modelled from the spec: \<open>lib/toggleLabels\<close> is imported by the form but its
  source is missing. The specification says that toggling a label adds it to or
  removes it from the draft selection, without duplicates: a label that is
  selected is removed, a label that is not is added at the end of the sequence.
\<close>

definition toggleLabels :: "Label list \<Rightarrow> Label \<Rightarrow> Label list" where
  "toggleLabels prev label =
     (if label \<in> set prev then filter (\<lambda>l. l \<noteq> label) prev else prev @ [label])"


section \<open>Application shell with local state (App.tsx, first version)\<close>

text \<open>
  \<open>{ ...todo, ...updateTodo }\<close>: every property that \<open>updateTodo\<close> has
  overrides the one of \<open>todo\<close>, the others are kept. This version of the
  handler types its argument as \<open>Todo\<close>, the payload with every field
  provided; the spread takes whatever properties the argument has, so the
  argument is modelled as the partial payload.
\<close>

definition spread :: "Todo \<Rightarrow> UpdateTodoPayload \<Rightarrow> Todo" where
  "spread todo updateTodo =
     \<lparr>todo_id = upd_id updateTodo,
      todo_text = (case upd_text updateTodo of None \<Rightarrow> todo_text todo | Some t \<Rightarrow> t),
      todo_completed = (case upd_completed updateTodo of None \<Rightarrow> todo_completed todo | Some c \<Rightarrow> c),
      todo_labels = (case upd_labels updateTodo of None \<Rightarrow> todo_labels todo | Some ls \<Rightarrow> ls)\<rparr>"

definition onUpdate :: "UpdateTodoPayload \<Rightarrow> Todo list \<Rightarrow> Todo list" where
  "onUpdate updateTodo todos =
     map (\<lambda>todo. if todo_id todo = upd_id updateTodo then spread todo updateTodo else todo) todos"

section \<open>Application shell over the API client (App.tsx, version with labels)\<close>

record AppState =
  todos :: "Todo list"
  labels :: "Label list"
  filterLabelId :: "int option"

text \<open>
  The API client (\<open>lib/api/todo\<close>, \<open>lib/api/label\<close>) is a parameter of the
  shell. Each operation issues one request, answers from the state of the
  server and may change it; a promise that is rejected is the result \<open>Inl\<close>.
\<close>

datatype error = Rejected

datatype request =
    ReqAddTodo "int NewTodoPayload"
  | ReqGetTodos
  | ReqAddLabel NewLabelPayload
  | ReqDeleteLabel int

record 'sv api =
  addTodoItem :: "int NewTodoPayload \<Rightarrow> 'sv \<Rightarrow> (error + Todo) \<times> 'sv"
  getTodoItems :: "'sv \<Rightarrow> (error + Todo list) \<times> 'sv"
  addLabelItem :: "NewLabelPayload \<Rightarrow> 'sv \<Rightarrow> (error + Label) \<times> 'sv"
  deleteLabelItem :: "int \<Rightarrow> 'sv \<Rightarrow> (error + unit) \<times> 'sv"

text \<open>
  What a handler runs in: the state of the component, the state of the server
  and the requests issued so far, oldest first.
\<close>

record 'sv world =
  app :: AppState
  server :: 'sv
  sent :: "request list"

type_synonym ('sv, 'a) handler = "'sv world \<Rightarrow> (error + 'a) \<times> 'sv world"

definition finish :: "('sv, unit) handler" where
  "finish w = (Inr (), w)"

text \<open>Issuing a request: it is recorded, and the server answers.\<close>

definition call :: "request \<Rightarrow> ('sv \<Rightarrow> (error + 'a) \<times> 'sv) \<Rightarrow> ('sv, 'a) handler" where
  "call r f w =
     (case f (server w) of (res, sv') \<Rightarrow> (res, w\<lparr>server := sv', sent := sent w @ [r]\<rparr>))"

text \<open>
  \<open>const x = await m; k x\<close>: a rejection of \<open>m\<close> ends the handler there, and
  nothing after the \<open>await\<close> runs.
\<close>

definition await :: "('sv, 'a) handler \<Rightarrow> ('a \<Rightarrow> ('sv, 'b) handler) \<Rightarrow> ('sv, 'b) handler" where
  "await m k w = (case m w of (Inl e, w') \<Rightarrow> (Inl e, w') | (Inr x, w') \<Rightarrow> k x w')"

definition setTodos :: "Todo list \<Rightarrow> ('sv, unit) handler" where
  "setTodos ts w = (Inr (), w\<lparr>app := (app w)\<lparr>todos := ts\<rparr>\<rparr>)"

text \<open>\<open>setLabels\<close> takes the updater function of React; a plain value is a constant updater.\<close>

definition setLabels :: "(Label list \<Rightarrow> Label list) \<Rightarrow> ('sv, unit) handler" where
  "setLabels f w = (Inr (), w\<lparr>app := (app w)\<lparr>labels := f (labels (app w))\<rparr>\<rparr>)"

definition onSubmit :: "'sv api \<Rightarrow> int NewTodoPayload \<Rightarrow> ('sv, unit) handler" where
  "onSubmit api payload =
     (if \<not> truthy_string (new_text payload) then finish
      else await (call (ReqAddTodo payload) (addTodoItem api payload)) (\<lambda>_.
           await (call ReqGetTodos (getTodoItems api)) (\<lambda>ts.
           setTodos ts)))"

definition onSelectLabel :: "Label option \<Rightarrow> AppState \<Rightarrow> AppState" where
  "onSelectLabel label s =
     s\<lparr>filterLabelId := (case label of None \<Rightarrow> None | Some l \<Rightarrow> Some (label_id l))\<rparr>"

text \<open>
  \<open>onSubmitNewLabel\<close> reads \<open>labels\<close> from the render it was created in, for
  the test and for the new value alike.
\<close>

definition onSubmitNewLabel :: "'sv api \<Rightarrow> NewLabelPayload \<Rightarrow> ('sv, unit) handler" where
  "onSubmitNewLabel api newLabel w =
     (let labels0 = labels (app w) in
      if \<not> list_ex (\<lambda>label. label_name label = new_name newLabel) labels0
      then await (call (ReqAddLabel newLabel) (addLabelItem api newLabel)) (\<lambda>res.
           setLabels (\<lambda>_. labels0 @ [res])) w
      else finish w)"

definition onDeleteLabel :: "'sv api \<Rightarrow> int \<Rightarrow> ('sv, unit) handler" where
  "onDeleteLabel api k =
     await (call (ReqDeleteLabel k) (deleteLabelItem api k)) (\<lambda>_.
     setLabels (\<lambda>prev. filter (\<lambda>label. label_id label \<noteq> k) prev))"

definition dispTodo :: "AppState \<Rightarrow> Todo list" where
  "dispTodo s =
     (if truthy_number (filterLabelId s)
      then filter (\<lambda>todo. list_ex (\<lambda>label. Some (label_id label) = filterLabelId s) (todo_labels todo))
             (todos s)
      else todos s)"

text \<open>
  \<open><TodoForm onSubmit={onSubmit} labels={labels}/>\<close>: a click on "add todo"
  runs the form's handler, and the payload it emits, if any, goes to the shell's
  \<open>onSubmit\<close>.
\<close>

definition addTodoClick ::
  "'sv api \<Rightarrow> TodoFormState \<times> 'sv world \<Rightarrow> (error + unit) \<times> TodoFormState \<times> 'sv world" where
  "addTodoClick api fw =
     (case fw of (s, w) \<Rightarrow>
        (case addTodoHandler s of
           (None, s') \<Rightarrow> (Inr (), s', w)
         | (Some payload, s') \<Rightarrow> (case onSubmit api payload w of (r, w') \<Rightarrow> (r, s', w'))))"

section \<open>Example data\<close>

text \<open>
  Two API clients for the examples below: one whose server keeps both
  collections and answers every request, and one that rejects every request.
\<close>

record store =
  stored_todos :: "Todo list"
  stored_labels :: "Label list"

definition memory_api :: "store api" where
  "memory_api =
     \<lparr>addTodoItem = (\<lambda>payload sv.
        let t = \<lparr>todo_id = int (length (stored_todos sv)) + 1, todo_text = new_text payload,
                 todo_completed = False,
                 todo_labels = filter (\<lambda>l. label_id l \<in> set (new_labels payload)) (stored_labels sv)\<rparr>
        in (Inr t, sv\<lparr>stored_todos := stored_todos sv @ [t]\<rparr>)),
      getTodoItems = (\<lambda>sv. (Inr (stored_todos sv), sv)),
      addLabelItem = (\<lambda>newLabel sv.
        let l = \<lparr>label_id = int (length (stored_labels sv)) + 1, label_name = new_name newLabel\<rparr>
        in (Inr l, sv\<lparr>stored_labels := stored_labels sv @ [l]\<rparr>)),
      deleteLabelItem = (\<lambda>k sv.
        (Inr (), sv\<lparr>stored_labels := filter (\<lambda>l. label_id l \<noteq> k) (stored_labels sv)\<rparr>))\<rparr>"

definition offline_api :: "'sv api" where
  "offline_api =
     \<lparr>addTodoItem = (\<lambda>payload sv. (Inl Rejected, sv)),
      getTodoItems = (\<lambda>sv. (Inl Rejected, sv)),
      addLabelItem = (\<lambda>newLabel sv. (Inl Rejected, sv)),
      deleteLabelItem = (\<lambda>k sv. (Inl Rejected, sv))\<rparr>"

definition work :: Label where
  "work = \<lparr>label_id = 1, label_name = ''work''\<rparr>"

definition home :: Label where
  "home = \<lparr>label_id = 2, label_name = ''home''\<rparr>"

definition misc :: Label where
  "misc = \<lparr>label_id = 0, label_name = ''misc''\<rparr>"

definition milk :: Todo where
  "milk = \<lparr>todo_id = 1, todo_text = ''Buy milk'', todo_completed = False, todo_labels = [work, home]\<rparr>"

definition mail :: Todo where
  "mail = \<lparr>todo_id = 2, todo_text = ''Send mail'', todo_completed = False, todo_labels = [work]\<rparr>"

definition world0 :: "store world" where
  "world0 =
     \<lparr>app = \<lparr>todos = [milk, mail], labels = [work, home], filterLabelId = None\<rparr>,
      server = \<lparr>stored_todos = [milk, mail], stored_labels = [work, home]\<rparr>,
      sent = []\<rparr>"

section \<open>The todo form\<close>

text \<open>
  C2. With an empty draft text the submit handler of the form returns before it
  calls \<open>onSubmit\<close> and leaves the form as it is; the shell's \<open>onSubmit\<close>,
  given a payload with empty text, issues no request (neither \<open>addTodoItem\<close>
  nor \<open>getTodoItems\<close>) and leaves the todos, and everything else, unchanged;
  so a click on "add todo" with an empty draft changes nothing at all.
\<close>

theorem empty_text_no_request:
  "(editText s = [] \<longrightarrow> addTodoHandler s = (None, s)) \<and>
   (new_text payload = [] \<longrightarrow> onSubmit api payload w = (Inr (), w)) \<and>
   (editText s = [] \<longrightarrow> addTodoClick api (s, w) = (Inr (), s, w))"
  by (simp add: addTodoHandler_def onSubmit_def addTodoClick_def truthy_string_def finish_def)

text \<open>The theorem at an empty draft with one label selected, over the answering server.\<close>

theorem empty_text_no_request_witness:
  "editText \<lparr>editText = [], editLabels = [work], openLabelModal = False\<rparr> = [] \<and>
   new_text \<lparr>new_text = [], new_labels = [1::int]\<rparr> = [] \<and>
   addTodoHandler \<lparr>editText = [], editLabels = [work], openLabelModal = False\<rparr>
     = (None, \<lparr>editText = [], editLabels = [work], openLabelModal = False\<rparr>) \<and>
   onSubmit memory_api \<lparr>new_text = [], new_labels = [1]\<rparr> world0 = (Inr (), world0) \<and>
   addTodoClick memory_api (\<lparr>editText = [], editLabels = [work], openLabelModal = False\<rparr>, world0)
     = (Inr (), \<lparr>editText = [], editLabels = [work], openLabelModal = False\<rparr>, world0)"
  using empty_text_no_request [of "\<lparr>editText = [], editLabels = [work], openLabelModal = False\<rparr>"
      "\<lparr>new_text = [], new_labels = [1]\<rparr>" memory_api world0]
  by simp

text \<open>
  C7. The \<open>labels\<close> field of the payload the form emits is the sequence of the
  identifiers of the draft labels, in the order of the selection: integers, not
  \<open>Label\<close> objects. A payload is emitted whenever the draft text is not empty.
\<close>

theorem addTodoHandler_payload_label_ids:
  "(editText s \<noteq> [] \<longrightarrow>
      fst (addTodoHandler s) = Some \<lparr>new_text = editText s, new_labels = map label_id (editLabels s)\<rparr>) \<and>
   (\<forall>payload. fst (addTodoHandler s) = Some payload \<longrightarrow>
      new_labels payload = map label_id (editLabels s) \<and>
      length (new_labels payload) = length (editLabels s) \<and>
      (\<forall>i < length (editLabels s). new_labels payload ! i = label_id (editLabels s ! i)))"
  by (auto simp: addTodoHandler_def truthy_string_def)

text \<open>The draft "Buy milk" with the labels 2 and 1 selected in that order.\<close>

theorem addTodoHandler_payload_label_ids_witness:
  "editText \<lparr>editText = ''Buy milk'', editLabels = [home, work], openLabelModal = False\<rparr> \<noteq> [] \<and>
   fst (addTodoHandler \<lparr>editText = ''Buy milk'', editLabels = [home, work], openLabelModal = False\<rparr>)
     = Some \<lparr>new_text = ''Buy milk'', new_labels = [2, 1]\<rparr>"
  using addTodoHandler_payload_label_ids
    [of "\<lparr>editText = ''Buy milk'', editLabels = [home, work], openLabelModal = False\<rparr>"]
  by (simp add: work_def home_def)

text \<open>
  C6, as the code has it. After the submit handler has run on a draft whose text
  is not empty, the draft text is the empty string; the handler calls
  \<open>setEditText('')\<close> only, so the draft label selection and the state of the
  modal are what they were.
\<close>

theorem addTodoHandler_clears_text:
  assumes "editText s \<noteq> []"
  shows "editText (snd (addTodoHandler s)) = [] \<and>
         editLabels (snd (addTodoHandler s)) = editLabels s \<and>
         openLabelModal (snd (addTodoHandler s)) = openLabelModal s"
  using assms by (simp add: addTodoHandler_def truthy_string_def)

text \<open>The draft "Buy milk" with two labels selected.\<close>

theorem addTodoHandler_clears_text_witness:
  "editText \<lparr>editText = ''Buy milk'', editLabels = [work, home], openLabelModal = False\<rparr> \<noteq> [] \<and>
   snd (addTodoHandler \<lparr>editText = ''Buy milk'', editLabels = [work, home], openLabelModal = False\<rparr>)
     = \<lparr>editText = [], editLabels = [work, home], openLabelModal = False\<rparr>"
proof -
  let ?s = "\<lparr>editText = ''Buy milk'', editLabels = [work, home], openLabelModal = False\<rparr>"
  have h: "editText ?s \<noteq> []" by simp
  from addTodoHandler_clears_text [OF h] h show ?thesis
    by (cases "snd (addTodoHandler ?s)") simp
qed

text \<open>
  The label selection is not cleared: after submitting "Buy milk" with one label
  selected the selection is not empty.
\<close>

theorem addTodoHandler_keeps_labels_counterexample:
  "editText \<lparr>editText = ''Buy milk'', editLabels = [work], openLabelModal = False\<rparr> \<noteq> [] \<and>
   editLabels (snd (addTodoHandler \<lparr>editText = ''Buy milk'', editLabels = [work], openLabelModal = False\<rparr>))
     \<noteq> []"
  by (simp add: addTodoHandler_def truthy_string_def)

subsection \<open>The label picker\<close>



lemma toggleLabels_set:
  "set (toggleLabels prev label) = (if label \<in> set prev then set prev - {label} else insert label (set prev))"
  by (auto simp: toggleLabels_def)







section \<open>The shell with local state\<close>

lemma spread_fields:
  "todo_id (spread todo u) = upd_id u"
  "todo_text (spread todo u) = (case upd_text u of None \<Rightarrow> todo_text todo | Some t \<Rightarrow> t)"
  "todo_completed (spread todo u) = (case upd_completed u of None \<Rightarrow> todo_completed todo | Some c \<Rightarrow> c)"
  "todo_labels (spread todo u) = (case upd_labels u of None \<Rightarrow> todo_labels todo | Some ls \<Rightarrow> ls)"
  by (simp_all add: spread_def)

text \<open>
  C8. The update handler keeps the length and the order of the collection. A
  todo whose identifier differs from the payload's is unchanged. A todo whose
  identifier equals the payload's keeps its identifier, takes every field that the
  payload provides and keeps every field that the payload leaves out.
\<close>

theorem onUpdate_changes_only_provided:
  "length (onUpdate u ts) = length ts \<and>
   (\<forall>i < length ts.
      (todo_id (ts ! i) \<noteq> upd_id u \<longrightarrow> onUpdate u ts ! i = ts ! i) \<and>
      (todo_id (ts ! i) = upd_id u \<longrightarrow>
         todo_id (onUpdate u ts ! i) = todo_id (ts ! i) \<and>
         (upd_text u = None \<longrightarrow> todo_text (onUpdate u ts ! i) = todo_text (ts ! i)) \<and>
         (\<forall>t. upd_text u = Some t \<longrightarrow> todo_text (onUpdate u ts ! i) = t) \<and>
         (upd_completed u = None \<longrightarrow> todo_completed (onUpdate u ts ! i) = todo_completed (ts ! i)) \<and>
         (\<forall>c. upd_completed u = Some c \<longrightarrow> todo_completed (onUpdate u ts ! i) = c) \<and>
         (upd_labels u = None \<longrightarrow> todo_labels (onUpdate u ts ! i) = todo_labels (ts ! i)) \<and>
         (\<forall>ls. upd_labels u = Some ls \<longrightarrow> todo_labels (onUpdate u ts ! i) = ls)))"
  by (simp add: onUpdate_def spread_fields)

text \<open>Completing the second of two todos: the first is untouched, the second keeps text and labels.\<close>

theorem onUpdate_changes_only_provided_witness:
  "onUpdate \<lparr>upd_id = 2, upd_text = None, upd_completed = Some True, upd_labels = None\<rparr> [milk, mail] ! 0
     = milk \<and>
   todo_id (onUpdate \<lparr>upd_id = 2, upd_text = None, upd_completed = Some True, upd_labels = None\<rparr> [milk, mail] ! 1)
     = 2 \<and>
   todo_text (onUpdate \<lparr>upd_id = 2, upd_text = None, upd_completed = Some True, upd_labels = None\<rparr> [milk, mail] ! 1)
     = ''Send mail'' \<and>
   todo_completed (onUpdate \<lparr>upd_id = 2, upd_text = None, upd_completed = Some True, upd_labels = None\<rparr> [milk, mail] ! 1)
     = True \<and>
   todo_labels (onUpdate \<lparr>upd_id = 2, upd_text = None, upd_completed = Some True, upd_labels = None\<rparr> [milk, mail] ! 1)
     = [work]"
proof -
  let ?u = "\<lparr>upd_id = 2, upd_text = None, upd_completed = Some True, upd_labels = None\<rparr>"
  note at = onUpdate_changes_only_provided [of ?u "[milk, mail]", THEN conjunct2, rule_format]
  from at [of 0] at [of 1] show ?thesis
    by (auto simp: milk_def mail_def)
qed

section \<open>The shell over the API client\<close>

subsection \<open>Adding a todo\<close>

lemma onSubmit_unfold:
  assumes "new_text payload \<noteq> []"
      and "addTodoItem api payload (server w) = (ra, sv1)"
      and "getTodoItems api sv1 = (rg, sv2)"
  shows "onSubmit api payload w =
     (case ra of
        Inl e \<Rightarrow> (Inl e, w\<lparr>server := sv1, sent := sent w @ [ReqAddTodo payload]\<rparr>)
      | Inr t \<Rightarrow>
         (case rg of
            Inl e \<Rightarrow> (Inl e, w\<lparr>server := sv2, sent := sent w @ [ReqAddTodo payload, ReqGetTodos]\<rparr>)
          | Inr ts \<Rightarrow> (Inr (), w\<lparr>server := sv2, sent := sent w @ [ReqAddTodo payload, ReqGetTodos],
                                  app := (app w)\<lparr>todos := ts\<rparr>\<rparr>)))"
proof (cases ra)
  case (Inl e)
  with assms show ?thesis
    by (simp add: onSubmit_def truthy_string_def await_def call_def)
next
  case (Inr t)
  note ra = this
  show ?thesis
  proof (cases rg)
    case (Inl e)
    with assms ra show ?thesis
      by (simp add: onSubmit_def truthy_string_def await_def call_def)
  next
    case (Inr ts)
    with assms ra show ?thesis
      by (simp add: onSubmit_def truthy_string_def await_def call_def setTodos_def)
  qed
qed

text \<open>
  C3, as the code has it. For a payload whose text is not empty \<open>onSubmit\<close>
  issues exactly one creation request, carrying the payload as it is. When that
  request resolves, exactly one fetch of the full todo list follows, and when the
  fetch resolves its result replaces the cached todos wholesale. A request that is
  rejected ends the handler: after a rejected creation no fetch is issued, and
  after a rejected creation or fetch the cached todos are unchanged. No other
  request is issued, and labels and filter are unchanged.
\<close>

theorem onSubmit_create_then_fetch:
  assumes "new_text payload \<noteq> []"
      and "addTodoItem api payload (server w) = (ra, sv1)"
      and "getTodoItems api sv1 = (rg, sv2)"
      and "onSubmit api payload w = (r, w')"
  shows "sent w' = sent w @ (case ra of Inl e \<Rightarrow> [ReqAddTodo payload]
                                     | Inr t \<Rightarrow> [ReqAddTodo payload, ReqGetTodos]) \<and>
         todos (app w') = (case ra of Inl e \<Rightarrow> todos (app w)
                            | Inr t \<Rightarrow> (case rg of Inl e \<Rightarrow> todos (app w) | Inr ts \<Rightarrow> ts)) \<and>
         labels (app w') = labels (app w) \<and>
         filterLabelId (app w') = filterLabelId (app w) \<and>
         r = (case ra of Inl e \<Rightarrow> Inl e
                | Inr t \<Rightarrow> (case rg of Inl e \<Rightarrow> Inl e | Inr ts \<Rightarrow> Inr ()))"
  using assms(4) onSubmit_unfold [OF assms(1-3)]
  by (auto split: sum.splits)

text \<open>"Buy milk" with the label identifiers 1 and 2, over the answering server.\<close>

theorem onSubmit_create_then_fetch_witness:
  "new_text \<lparr>new_text = ''Buy milk'', new_labels = [1, 2::int]\<rparr> \<noteq> [] \<and>
   sent (snd (onSubmit memory_api \<lparr>new_text = ''Buy milk'', new_labels = [1, 2]\<rparr> world0))
     = [ReqAddTodo \<lparr>new_text = ''Buy milk'', new_labels = [1, 2]\<rparr>, ReqGetTodos] \<and>
   todos (app (snd (onSubmit memory_api \<lparr>new_text = ''Buy milk'', new_labels = [1, 2]\<rparr> world0)))
     = [milk, mail,
        \<lparr>todo_id = 3, todo_text = ''Buy milk'', todo_completed = False, todo_labels = [work, home]\<rparr>]"
proof -
  let ?p = "\<lparr>new_text = ''Buy milk'', new_labels = [1, 2::int]\<rparr>"
  let ?t = "\<lparr>todo_id = 3, todo_text = ''Buy milk'', todo_completed = False, todo_labels = [work, home]\<rparr>"
  let ?sv = "\<lparr>stored_todos = [milk, mail, ?t], stored_labels = [work, home]\<rparr>"
  have h1: "new_text ?p \<noteq> []" by simp
  have h2: "addTodoItem memory_api ?p (server world0) = (Inr ?t, ?sv)"
    by (simp add: memory_api_def world0_def work_def home_def Let_def)
  have h3: "getTodoItems memory_api ?sv = (Inr [milk, mail, ?t], ?sv)"
    by (simp add: memory_api_def)
  have h4: "onSubmit memory_api ?p world0
      = (fst (onSubmit memory_api ?p world0), snd (onSubmit memory_api ?p world0))"
    by simp
  from onSubmit_create_then_fetch [OF h1 h2 h3 h4] h1 show ?thesis
    by (simp add: world0_def)
qed

text \<open>
  Over the server that rejects every request the creation request is not
  followed by a fetch.
\<close>

theorem onSubmit_rejected_counterexample:
  "new_text \<lparr>new_text = ''Buy milk'', new_labels = [1, 2::int]\<rparr> \<noteq> [] \<and>
   sent (snd (onSubmit offline_api \<lparr>new_text = ''Buy milk'', new_labels = [1, 2]\<rparr> world0))
     \<noteq> sent world0 @ [ReqAddTodo \<lparr>new_text = ''Buy milk'', new_labels = [1, 2]\<rparr>, ReqGetTodos]"
  by (simp add: onSubmit_def truthy_string_def await_def call_def offline_api_def world0_def)

subsection \<open>Adding and deleting a label\<close>

lemma onSubmitNewLabel_unfold:
  assumes "addLabelItem api newLabel (server w) = (ra, sv1)"
  shows "onSubmitNewLabel api newLabel w =
     (if list_ex (\<lambda>label. label_name label = new_name newLabel) (labels (app w)) then (Inr (), w)
      else (case ra of
              Inl e \<Rightarrow> (Inl e, w\<lparr>server := sv1, sent := sent w @ [ReqAddLabel newLabel]\<rparr>)
            | Inr res \<Rightarrow> (Inr (), w\<lparr>server := sv1, sent := sent w @ [ReqAddLabel newLabel],
                                     app := (app w)\<lparr>labels := labels (app w) @ [res]\<rparr>\<rparr>)))"
  using assms
  by (cases ra) (simp_all add: onSubmitNewLabel_def Let_def finish_def await_def call_def setLabels_def)

text \<open>
  C4. When a cached label has the name of the payload, \<open>onSubmitNewLabel\<close>
  issues no request and changes nothing. Otherwise it issues exactly one
  creation request, and the label the server returns is appended at the end of
  the cached labels; when the server returns no label (the request is rejected)
  the cached labels stay as they are.
\<close>

theorem onSubmitNewLabel_dedup_append:
  assumes "addLabelItem api p (server w) = (ra, sv1)"
      and "onSubmitNewLabel api p w = (r, w')"
  shows "((\<exists>l \<in> set (labels (app w)). label_name l = new_name p) \<longrightarrow> r = Inr () \<and> w' = w) \<and>
         ((\<forall>l \<in> set (labels (app w)). label_name l \<noteq> new_name p) \<longrightarrow>
            sent w' = sent w @ [ReqAddLabel p] \<and>
            (\<forall>res. ra = Inr res \<longrightarrow> labels (app w') = labels (app w) @ [res]) \<and>
            (\<forall>e. ra = Inl e \<longrightarrow> labels (app w') = labels (app w)))"
proof (cases "list_ex (\<lambda>label. label_name label = new_name p) (labels (app w))")
  case True
  with assms(2) onSubmitNewLabel_unfold [OF assms(1)] have "r = Inr () \<and> w' = w"
    by simp
  with True show ?thesis
    by (auto simp: list_ex_iff)
next
  case False
  with assms(2) onSubmitNewLabel_unfold [OF assms(1)]
  have "(r, w') = (case ra of
              Inl e \<Rightarrow> (Inl e, w\<lparr>server := sv1, sent := sent w @ [ReqAddLabel p]\<rparr>)
            | Inr res \<Rightarrow> (Inr (), w\<lparr>server := sv1, sent := sent w @ [ReqAddLabel p],
                                     app := (app w)\<lparr>labels := labels (app w) @ [res]\<rparr>\<rparr>))"
    by simp
  then have "sent w' = sent w @ [ReqAddLabel p] \<and>
            (\<forall>res. ra = Inr res \<longrightarrow> labels (app w') = labels (app w) @ [res]) \<and>
            (\<forall>e. ra = Inl e \<longrightarrow> labels (app w') = labels (app w))"
    by (cases ra) auto
  with False show ?thesis
    by (auto simp: list_ex_iff)
qed

text \<open>The cached labels work, home: adding "work" again, and adding "garden".\<close>

theorem onSubmitNewLabel_dedup_append_witness:
  "list_ex (\<lambda>l. label_name l = new_name \<lparr>new_name = ''work''\<rparr>) (labels (app world0)) \<and>
   onSubmitNewLabel memory_api \<lparr>new_name = ''work''\<rparr> world0 = (Inr (), world0) \<and>
   \<not> list_ex (\<lambda>l. label_name l = new_name \<lparr>new_name = ''garden''\<rparr>) (labels (app world0)) \<and>
   sent (snd (onSubmitNewLabel memory_api \<lparr>new_name = ''garden''\<rparr> world0))
     = [ReqAddLabel \<lparr>new_name = ''garden''\<rparr>] \<and>
   labels (app (snd (onSubmitNewLabel memory_api \<lparr>new_name = ''garden''\<rparr> world0)))
     = [work, home, \<lparr>label_id = 3, label_name = ''garden''\<rparr>]"
proof -
  let ?dup = "\<lparr>new_name = ''work''\<rparr>"
  let ?new = "\<lparr>new_name = ''garden''\<rparr>"
  let ?l = "\<lparr>label_id = 3, label_name = ''garden''\<rparr>"
  have d1: "addLabelItem memory_api ?dup (server world0)
      = (fst (addLabelItem memory_api ?dup (server world0)),
         snd (addLabelItem memory_api ?dup (server world0)))"
    by simp
  have d2: "onSubmitNewLabel memory_api ?dup world0
      = (fst (onSubmitNewLabel memory_api ?dup world0), snd (onSubmitNewLabel memory_api ?dup world0))"
    by simp
  have d3: "\<exists>l \<in> set (labels (app world0)). label_name l = new_name ?dup"
    by (simp add: world0_def work_def)
  have n1: "addLabelItem memory_api ?new (server world0)
      = (Inr ?l, \<lparr>stored_todos = [milk, mail], stored_labels = [work, home, ?l]\<rparr>)"
    by (simp add: memory_api_def world0_def Let_def)
  have n2: "onSubmitNewLabel memory_api ?new world0
      = (fst (onSubmitNewLabel memory_api ?new world0), snd (onSubmitNewLabel memory_api ?new world0))"
    by simp
  have n3: "\<forall>l \<in> set (labels (app world0)). label_name l \<noteq> new_name ?new"
    by (simp add: world0_def work_def home_def)
  from onSubmitNewLabel_dedup_append [OF d1 d2] d3
  have "onSubmitNewLabel memory_api ?dup world0 = (Inr (), world0)"
    by (simp add: prod_eq_iff)
  moreover from onSubmitNewLabel_dedup_append [OF n1 n2] n3
  have "sent (snd (onSubmitNewLabel memory_api ?new world0)) = [ReqAddLabel ?new] \<and>
        labels (app (snd (onSubmitNewLabel memory_api ?new world0))) = [work, home, ?l]"
    by (simp add: world0_def)
  ultimately show ?thesis using d3 n3 by (simp add: list_ex_iff)
qed

lemma onDeleteLabel_unfold:
  assumes "deleteLabelItem api k (server w) = (rd, sv1)"
  shows "onDeleteLabel api k w =
     (case rd of
        Inl e \<Rightarrow> (Inl e, w\<lparr>server := sv1, sent := sent w @ [ReqDeleteLabel k]\<rparr>)
      | Inr u \<Rightarrow> (Inr (), w\<lparr>server := sv1, sent := sent w @ [ReqDeleteLabel k],
                             app := (app w)\<lparr>labels := filter (\<lambda>label. label_id label \<noteq> k) (labels (app w))\<rparr>\<rparr>))"
  using assms
  by (cases rd) (simp_all add: onDeleteLabel_def await_def call_def setLabels_def)

text \<open>
  C5, as the code has it. \<open>onDeleteLabel k\<close> issues exactly one delete request
  and nothing else, in particular no fetch of the todos. When the request
  resolves, the cached labels are the old ones without the entries whose
  identifier is \<open>k\<close>, the others unchanged and in their order; when it is
  rejected, the cached labels are unchanged. The cached todos and the filter are
  unchanged in both cases.
\<close>

theorem onDeleteLabel_removes_id:
  assumes "deleteLabelItem api k (server w) = (rd, sv1)"
      and "onDeleteLabel api k w = (r, w')"
  shows "sent w' = sent w @ [ReqDeleteLabel k] \<and>
         labels (app w') = (case rd of Inl e \<Rightarrow> labels (app w)
                             | Inr u \<Rightarrow> filter (\<lambda>label. label_id label \<noteq> k) (labels (app w))) \<and>
         todos (app w') = todos (app w) \<and>
         filterLabelId (app w') = filterLabelId (app w) \<and>
         r = (case rd of Inl e \<Rightarrow> Inl e | Inr u \<Rightarrow> Inr ())"
  using assms(2) onDeleteLabel_unfold [OF assms(1)]
  by (cases rd) auto

text \<open>Deleting the label 1 from work, home, over the answering server.\<close>

theorem onDeleteLabel_removes_id_witness:
  "sent (snd (onDeleteLabel memory_api 1 world0)) = [ReqDeleteLabel 1] \<and>
   labels (app (snd (onDeleteLabel memory_api 1 world0))) = [home] \<and>
   todos (app (snd (onDeleteLabel memory_api 1 world0))) = [milk, mail]"
proof -
  have h1: "deleteLabelItem memory_api 1 (server world0)
      = (Inr (), \<lparr>stored_todos = [milk, mail], stored_labels = [home]\<rparr>)"
    by (simp add: memory_api_def world0_def work_def home_def)
  have h2: "onDeleteLabel memory_api 1 world0
      = (fst (onDeleteLabel memory_api 1 world0), snd (onDeleteLabel memory_api 1 world0))"
    by simp
  from onDeleteLabel_removes_id [OF h1 h2] show ?thesis
    by (simp add: world0_def work_def home_def)
qed

text \<open>Over the server that rejects every request the label 1 stays in the cache.\<close>

theorem onDeleteLabel_rejected_counterexample:
  "labels (app (snd (onDeleteLabel offline_api 1 world0)))
     \<noteq> filter (\<lambda>label. label_id label \<noteq> 1) (labels (app world0))"
  by (simp add: onDeleteLabel_def await_def call_def offline_api_def world0_def work_def home_def)

subsection \<open>The displayed todos\<close>

lemma dispTodo_no_filter: "filterLabelId s = None \<Longrightarrow> dispTodo s = todos s"
  by (simp add: dispTodo_def)

lemma dispTodo_nonzero_filter:
  "filterLabelId s = Some k \<Longrightarrow> k \<noteq> 0 \<Longrightarrow>
   dispTodo s = filter (\<lambda>todo. \<exists>label \<in> set (todo_labels todo). label_id label = k) (todos s)"
  by (simp add: dispTodo_def list_ex_iff)

text \<open>
  C1. The displayed sequence is the cached one when no filter is set, and the
  subsequence of the todos carrying the label when the filter is a label whose
  identifier is not 0 (the two lemmas above). For a label with the identifier 0
  the view shows every todo: here none of the two cached todos carries the label,
  and both are displayed.
\<close>

theorem dispTodo_label_zero_failing_input:
  "dispTodo (onSelectLabel (Some misc) \<lparr>todos = [milk, mail], labels = [work, home, misc], filterLabelId = None\<rparr>)
     = [milk, mail] \<and>
   filter (\<lambda>todo. \<exists>label \<in> set (todo_labels todo). label_id label = label_id misc) [milk, mail] = []"
  by (simp add: dispTodo_def onSelectLabel_def misc_def milk_def mail_def work_def home_def)

text \<open>
  C10. Selecting a label whose identifier is 0 stores the identifier 0 as the
  filter (\<open>??\<close> keeps it), the view's test of the filter is a test for
  truthiness, which 0 fails, and so the view displays the full cached sequence.
\<close>

theorem dispTodo_filter_id_zero_shows_all:
  assumes "label_id L = 0"
  shows "filterLabelId (onSelectLabel (Some L) s) = Some 0 \<and>
         \<not> truthy_number (filterLabelId (onSelectLabel (Some L) s)) \<and>
         dispTodo (onSelectLabel (Some L) s) = todos s"
  using assms by (simp add: dispTodo_def onSelectLabel_def)

text \<open>
  Two cached todos, neither of them carrying a label with the identifier 0: both
  are displayed, where filtering by the label would display none.
\<close>

theorem dispTodo_filter_id_zero_shows_all_witness:
  "label_id \<lparr>label_id = 0, label_name = ''later''\<rparr> = 0 \<and>
   dispTodo (onSelectLabel (Some \<lparr>label_id = 0, label_name = ''later''\<rparr>) (app world0)) = [milk, mail] \<and>
   filter (\<lambda>todo. list_ex (\<lambda>label. label_id label = 0) (todo_labels todo)) (todos (app world0)) = []"
proof -
  have h: "label_id \<lparr>label_id = 0, label_name = ''later''\<rparr> = 0" by simp
  from dispTodo_filter_id_zero_shows_all [OF h, of "app world0"] show ?thesis
    by (simp add: world0_def milk_def mail_def work_def home_def)
qed

end
